theory Spec2Isabelle
  imports Complex_Main
begin

section \<open>Data model (src/types.ts, src/constants.ts)\<close>

text \<open>
  The editor keeps a list of nodes and a list of directed edges. A TypeScript \<open>number\<close>
  is modelled as a \<open>real\<close>, a \<open>string\<close> as a HOL string, and a value that may be
  \<open>null\<close> or \<open>undefined\<close> as an \<open>option\<close>. The fields of the three interfaces carry the
  interface as a prefix (\<open>node_x\<close> for \<open>Node.x\<close>, \<open>edge_sourceId\<close> for \<open>Edge.sourceId\<close>,
  \<open>pending_sourceId\<close> for \<open>PendingEdge.sourceId\<close>), since two of them share field names.
\<close>

datatype NodeType = UDE | CAUSE

record Node =
  node_id :: string
  node_text :: string
  node_x :: real
  node_y :: real
  node_type :: NodeType
  node_width :: real
  node_height :: real

record Edge =
  edge_id :: string
  edge_sourceId :: string
  edge_targetId :: string

record PendingEdge =
  pending_sourceId :: string
  pending_sourceX :: real
  pending_sourceY :: real
  pending_mouseX :: real
  pending_mouseY :: real

definition NODE_WIDTH :: real where "NODE_WIDTH = 200"
definition NODE_HEIGHT :: real where "NODE_HEIGHT = 70"
definition MIN_NODE_WIDTH :: real where "MIN_NODE_WIDTH = 60"
definition MIN_NODE_HEIGHT :: real where "MIN_NODE_HEIGHT = 40"

section \<open>Editor state (src/App.tsx, src/components)\<close>

text \<open>
  The state held by the React components: \<open>nodes\<close>, \<open>edges\<close>, \<open>selectedNodeId\<close>,
  \<open>defaultNodeSize\<close> and \<open>aiPanelUserHidden\<close> live in \<open>App\<close>; \<open>draggingNode\<close>, \<open>dragOffset\<close>,
  \<open>pendingEdge\<close>, \<open>selectedEdgeId\<close> and \<open>potentialTargetNodeId\<close> live in
  \<open>CurrentRealityTree\<close>; every \<open>NodeComponent\<close> has its own \<open>isResizing\<close> flag and
  \<open>resizeStartInfo\<close> reference, set and cleared together, kept here in one map from the
  node id to the start info (\<open>None\<close> when that node is not being resized).
  Events are handled one at a time and the components re-render in between, so a
  handler's captured \<open>edges\<close>, \<open>nodes\<close> or \<open>pendingEdge\<close> is the current one.
\<close>

record Dimensions =
  dim_width :: real
  dim_height :: real

record Point =
  point_x :: real
  point_y :: real

record ResizeStartInfo =
  initialMouseX :: real
  initialMouseY :: real
  initialWidth :: real
  initialHeight :: real

record Editor =
  nodes :: "Node list"
  edges :: "Edge list"
  selectedNodeId :: "string option"
  defaultNodeSize :: Dimensions
  aiPanelUserHidden :: bool
  draggingNode :: "string option"
  dragOffset :: Point
  pendingEdge :: "PendingEdge option"
  selectedEdgeId :: "string option"
  potentialTargetNodeId :: "string option"
  resizing :: "string \<Rightarrow> ResizeStartInfo option"

definition initialEditor :: Editor where
  "initialEditor =
     \<lparr> nodes = [], edges = [], selectedNodeId = None,
       defaultNodeSize = \<lparr> dim_width = NODE_WIDTH, dim_height = NODE_HEIGHT \<rparr>,
       aiPanelUserHidden = False,
       draggingNode = None, dragOffset = \<lparr> point_x = 0, point_y = 0 \<rparr>,
       pendingEdge = None, selectedEdgeId = None, potentialTargetNodeId = None,
       resizing = (\<lambda>_. None) \<rparr>"

section \<open>Graph Store (src/App.tsx)\<close>

text \<open>
  \<open>generateId\<close> reads the clock and \<open>Math.random\<close>; the identifier it returns is an
  argument \<open>gid\<close> of the operations that call it, and the two \<open>Math.random\<close> draws of
  \<open>addNode\<close> are the arguments \<open>rx\<close> and \<open>ry\<close>. In \<open>addNode\<close> the text is defaulted with
  \<open>||\<close> (any falsy value: \<open>undefined\<close> or the empty string) and the position with \<open>??\<close>
  (\<open>undefined\<close> only).
\<close>

definition placeholder :: "NodeType \<Rightarrow> string" where
  "placeholder ty = (if ty = UDE then ''Novo EI'' else ''Nova Causa'')"

definition addNode ::
  "string \<Rightarrow> real \<Rightarrow> real \<Rightarrow> NodeType \<Rightarrow> string option \<Rightarrow> real option \<Rightarrow> real option
     \<Rightarrow> Editor \<Rightarrow> Node \<times> Editor" where
  "addNode gid rx ry ty txt x y s =
     (let newNode =
        \<lparr> node_id = gid,
          node_text = (case txt of None \<Rightarrow> placeholder ty
                       | Some t \<Rightarrow> if t = [] then placeholder ty else t),
          node_x = (case x of None \<Rightarrow> rx * 300 + 50 | Some v \<Rightarrow> v),
          node_y = (case y of None \<Rightarrow> ry * 200 + 50 | Some v \<Rightarrow> v),
          node_type = ty,
          node_width = dim_width (defaultNodeSize s),
          node_height = dim_height (defaultNodeSize s) \<rparr>
      in (newNode, s\<lparr> nodes := nodes s @ [newNode], aiPanelUserHidden := False \<rparr>))"

definition updateNodeText :: "string \<Rightarrow> string \<Rightarrow> Editor \<Rightarrow> Editor" where
  "updateNodeText nodeId newText s =
     s\<lparr> nodes := map (\<lambda>n. if node_id n = nodeId then n\<lparr> node_text := newText \<rparr> else n)
                    (nodes s) \<rparr>"

definition updateNodePosition :: "string \<Rightarrow> real \<Rightarrow> real \<Rightarrow> Editor \<Rightarrow> Editor" where
  "updateNodePosition nodeId x y s =
     s\<lparr> nodes := map (\<lambda>n. if node_id n = nodeId then n\<lparr> node_x := x, node_y := y \<rparr> else n)
                    (nodes s) \<rparr>"

definition handleUpdateNodeDimensions :: "string \<Rightarrow> real \<Rightarrow> real \<Rightarrow> Editor \<Rightarrow> Editor" where
  "handleUpdateNodeDimensions nodeId newWidth newHeight s =
     s\<lparr> nodes := map (\<lambda>n. if node_id n = nodeId
                           then n\<lparr> node_width := max MIN_NODE_WIDTH newWidth,
                                   node_height := max MIN_NODE_HEIGHT newHeight \<rparr>
                           else n)
                    (nodes s) \<rparr>"

definition handleSetDefaultNodeSize :: "real \<Rightarrow> real \<Rightarrow> Editor \<Rightarrow> Editor" where
  "handleSetDefaultNodeSize newWidth newHeight s =
     s\<lparr> defaultNodeSize := \<lparr> dim_width = max MIN_NODE_WIDTH newWidth,
                             dim_height = max MIN_NODE_HEIGHT newHeight \<rparr> \<rparr>"

definition deleteNode :: "string \<Rightarrow> Editor \<Rightarrow> Editor" where
  "deleteNode nodeId s =
     s\<lparr> nodes := filter (\<lambda>n. node_id n \<noteq> nodeId) (nodes s),
        edges := filter (\<lambda>e. edge_sourceId e \<noteq> nodeId \<and> edge_targetId e \<noteq> nodeId) (edges s),
        selectedNodeId := (if selectedNodeId s = Some nodeId then None else selectedNodeId s) \<rparr>"

definition addEdge :: "string \<Rightarrow> string \<Rightarrow> string \<Rightarrow> Editor \<Rightarrow> Editor" where
  "addEdge gid sourceId targetId s =
     (if sourceId = targetId
         \<or> list_ex (\<lambda>e. edge_sourceId e = sourceId \<and> edge_targetId e = targetId) (edges s)
      then s
      else s\<lparr> edges := edges s @
                 [\<lparr> edge_id = gid, edge_sourceId = sourceId, edge_targetId = targetId \<rparr>] \<rparr>)"

definition deleteEdge :: "string \<Rightarrow> Editor \<Rightarrow> Editor" where
  "deleteEdge edgeId s = s\<lparr> edges := filter (\<lambda>e. edge_id e \<noteq> edgeId) (edges s) \<rparr>"

text \<open>The identifiers of the nodes in the store, and the edges that join a given
  ordered pair of identifiers.\<close>

definition nodeIds :: "Editor \<Rightarrow> string set" where
  "nodeIds s = set (map node_id (nodes s))"


text \<open>Both endpoints of every edge are identifiers of nodes in the node list.\<close>

definition endpointsExist :: "Editor \<Rightarrow> bool" where
  "endpointsExist s =
     list_all (\<lambda>e. edge_sourceId e \<in> nodeIds s \<and> edge_targetId e \<in> nodeIds s) (edges s)"

text \<open>Two nodes and no edge: the store used to run the operations on concrete input.\<close>

definition nodeA :: Node where
  "nodeA = \<lparr> node_id = ''a'', node_text = ''A'', node_x = 0, node_y = 0, node_type = UDE,
             node_width = 200, node_height = 70 \<rparr>"

definition nodeB :: Node where
  "nodeB = \<lparr> node_id = ''b'', node_text = ''B'', node_x = 300, node_y = 300, node_type = CAUSE,
             node_width = 200, node_height = 70 \<rparr>"

definition twoNodes :: Editor where
  "twoNodes = initialEditor\<lparr> nodes := [nodeA, nodeB] \<rparr>"

text \<open>The store of the first end-to-end scenario: the edge from \<open>b\<close> to \<open>a\<close>, with \<open>a\<close> selected.\<close>

definition linked :: Editor where
  "linked = twoNodes\<lparr> edges := [\<lparr> edge_id = ''e1'', edge_sourceId = ''b'', edge_targetId = ''a'' \<rparr>],
                       selectedNodeId := Some ''a'' \<rparr>"

section \<open>Geometry (src/components/CurrentRealityTree.tsx)\<close>

text \<open>
  \<open>minT\<close> starts as \<open>Infinity\<close>, which is \<open>None\<close> here; \<open>mathMin\<close> is \<open>Math.min\<close> on it.
\<close>

definition mathMin :: "real option \<Rightarrow> real \<Rightarrow> real option" where
  "mathMin m t = (case m of None \<Rightarrow> Some t | Some v \<Rightarrow> Some (min v t))"

definition calculateIntersectionPointWithNodeBoundary :: "Node \<Rightarrow> Point \<Rightarrow> Point" where
  "calculateIntersectionPointWithNodeBoundary node targetPoint =
     (let nodeCenterX = node_x node + node_width node / 2;
          nodeCenterY = node_y node + node_height node / 2;
          dx = point_x targetPoint - nodeCenterX;
          dy = point_y targetPoint - nodeCenterY
      in if dx = 0 \<and> dy = 0
         then \<lparr> point_x = nodeCenterX, point_y = node_y node + node_height node \<rparr>
         else
           (let halfWidth = node_width node / 2;
                halfHeight = node_height node / 2;
                minT0 = None;
                minT1 = (if dx \<noteq> 0 then mathMin minT0 \<bar>halfWidth / dx\<bar> else minT0);
                minT2 = (if dy \<noteq> 0 then mathMin minT1 \<bar>halfHeight / dy\<bar> else minT1);
                degenerate =
                  (if dx = 0
                   then \<lparr> point_x = nodeCenterX, point_y = nodeCenterY + sgn dy * halfHeight \<rparr>
                   else if dy = 0
                   then \<lparr> point_x = nodeCenterX + sgn dx * halfWidth, point_y = nodeCenterY \<rparr>
                   else \<lparr> point_x = nodeCenterX, point_y = node_y node + node_height node \<rparr>)
            in case minT2 of
                 None \<Rightarrow> degenerate
               | Some minT \<Rightarrow>
                   if minT = 0 then degenerate
                   else
                     (let intersectX = nodeCenterX + dx * minT;
                          intersectY = nodeCenterY + dy * minT
                      in \<lparr> point_x = max (node_x node)
                                        (min intersectX (node_x node + node_width node)),
                           point_y = max (node_y node)
                                        (min intersectY (node_y node + node_height node)) \<rparr>)))"

text \<open>The centre of a node's box, the target point of the third claim on the geometry.\<close>

definition nodeCenter :: "Node \<Rightarrow> Point" where
  "nodeCenter node = \<lparr> point_x = node_x node + node_width node / 2,
                       point_y = node_y node + node_height node / 2 \<rparr>"

section \<open>Interaction (src/components/CurrentRealityTree.tsx, NodeComponent.tsx)\<close>

text \<open>
  A handler takes what it reads from the browser as arguments: the mouse event's
  \<open>clientX\<close> and \<open>clientY\<close>, the pane's bounding rectangle (\<open>None\<close> when the reference is
  not attached), the key of a keyboard event. The unused \<open>portX\<close> and \<open>portY\<close> of
  \<open>handlePortMouseDown\<close> are left out.
\<close>

record MouseEvent =
  clientX :: real
  clientY :: real

record DOMRect =
  rect_left :: real
  rect_top :: real

datatype PortType = source | target

text \<open>The ports of a node as \<open>NodeComponent\<close> places them, relative to the node, and the
  canvas position of the target port that it passes to \<open>onPortMouseDown\<close>.\<close>

definition sourcePortPos :: "Node \<Rightarrow> Point" where
  "sourcePortPos node = \<lparr> point_x = node_width node / 2, point_y = node_height node \<rparr>"



definition handleNodeClick :: "string \<Rightarrow> Editor \<Rightarrow> Editor" where
  "handleNodeClick nodeId s =
     s\<lparr> selectedNodeId := Some nodeId, selectedEdgeId := None,
        pendingEdge := None, potentialTargetNodeId := None \<rparr>"


definition handleNodeDrag :: "MouseEvent \<Rightarrow> DOMRect option \<Rightarrow> string \<Rightarrow> Editor \<Rightarrow> Editor" where
  "handleNodeDrag e paneRect nodeId s =
     (case draggingNode s of
        None \<Rightarrow> s
      | Some d \<Rightarrow>
          if d = [] \<or> d \<noteq> nodeId then s
          else (case paneRect of
                  None \<Rightarrow> s
                | Some r \<Rightarrow>
                    updateNodePosition nodeId
                      (clientX e - rect_left r - point_x (dragOffset s))
                      (clientY e - rect_top r - point_y (dragOffset s)) s))"

definition handleNodeDragEnd :: "string \<Rightarrow> Editor \<Rightarrow> Editor" where
  "handleNodeDragEnd nodeId s =
     (if draggingNode s = Some nodeId then s\<lparr> draggingNode := None \<rparr> else s)"


definition handleGlobalMouseMove :: "MouseEvent \<Rightarrow> Node \<Rightarrow> Editor \<Rightarrow> Editor" where
  "handleGlobalMouseMove e node s =
     (case resizing s (node_id node) of
        None \<Rightarrow> s
      | Some info \<Rightarrow>
          (let deltaX = clientX e - initialMouseX info;
               deltaY = clientY e - initialMouseY info;
               newWidth = max MIN_NODE_WIDTH (initialWidth info + deltaX);
               newHeight = max MIN_NODE_HEIGHT (initialHeight info + deltaY)
           in handleUpdateNodeDimensions (node_id node) newWidth newHeight s))"

definition handleGlobalMouseUp :: "Node \<Rightarrow> Editor \<Rightarrow> Editor" where
  "handleGlobalMouseUp node s =
     (case resizing s (node_id node) of
        None \<Rightarrow> s
      | Some info \<Rightarrow> s\<lparr> resizing := (resizing s)(node_id node := None) \<rparr>)"

definition handleStartConnectFromNode :: "string \<Rightarrow> Editor \<Rightarrow> Editor" where
  "handleStartConnectFromNode nodeId s =
     (case find (\<lambda>n. node_id n = nodeId) (nodes s) of
        None \<Rightarrow> s
      | Some node \<Rightarrow>
          s\<lparr> pendingEdge := Some
                \<lparr> pending_sourceId = nodeId,
                  pending_sourceX = node_x node + node_width node / 2,
                  pending_sourceY = node_y node + node_height node,
                  pending_mouseX = node_x node + node_width node / 2,
                  pending_mouseY = node_y node + node_height node \<rparr>,
             selectedNodeId := Some nodeId, selectedEdgeId := None,
             potentialTargetNodeId := None \<rparr>)"

definition handlePortMouseDown ::
  "MouseEvent \<Rightarrow> DOMRect option \<Rightarrow> string \<Rightarrow> string \<Rightarrow> PortType \<Rightarrow> Editor \<Rightarrow> Editor" where
  "handlePortMouseDown e paneRect gid nodeId portType s =
     (case portType of
        source \<Rightarrow>
          (case paneRect of
             None \<Rightarrow> s
           | Some r \<Rightarrow>
               (let initialMouseX = clientX e - rect_left r;
                    initialMouseY = clientY e - rect_top r
                in s\<lparr> pendingEdge := Some
                        \<lparr> pending_sourceId = nodeId,
                          pending_sourceX = initialMouseX, pending_sourceY = initialMouseY,
                          pending_mouseX = initialMouseX, pending_mouseY = initialMouseY \<rparr>,
                      selectedNodeId := Some nodeId, selectedEdgeId := None,
                      potentialTargetNodeId := None \<rparr>))
      | target \<Rightarrow>
          (case pendingEdge s of
             None \<Rightarrow> s
           | Some pe \<Rightarrow>
               if pending_sourceId pe \<noteq> nodeId
               then (addEdge gid (pending_sourceId pe) nodeId s)
                      \<lparr> pendingEdge := None, potentialTargetNodeId := None \<rparr>
               else s))"

definition handlePortMouseUp :: "string \<Rightarrow> string \<Rightarrow> PortType \<Rightarrow> Editor \<Rightarrow> Editor" where
  "handlePortMouseUp gid nodeId portType s =
     (case pendingEdge s of
        None \<Rightarrow> s
      | Some pe \<Rightarrow>
          if portType = target \<and> pending_sourceId pe \<noteq> nodeId
          then (if potentialTargetNodeId s = Some nodeId
                then addEdge gid (pending_sourceId pe) nodeId s else s)
                 \<lparr> pendingEdge := None, potentialTargetNodeId := None \<rparr>
          else s)"





text \<open>The pane at the origin of the viewport, and the state after "start connect" on
  node \<open>a\<close> of the two-node store: a pending edge from \<open>a\<close>, no hot target.\<close>

definition paneAtOrigin :: "DOMRect option" where
  "paneAtOrigin = Some \<lparr> rect_left = 0, rect_top = 0 \<rparr>"

definition connecting :: Editor where
  "connecting = handleStartConnectFromNode ''a'' twoNodes"




section \<open>Graph Store: results\<close>

text \<open>
  C10. \<open>addNode\<close> called with the empty string as its text stores the placeholder of the
  node type (\<open>Novo EI\<close> for UDE, \<open>Nova Causa\<close> for CAUSE), and returns the same node and
  the same state as the call that omits the text.
\<close>

theorem addNode_empty_text_is_placeholder:
  "addNode gid rx ry ty (Some '''') x y s = addNode gid rx ry ty None x y s
   \<and> node_text (fst (addNode gid rx ry UDE (Some '''') x y s)) = ''Novo EI''
   \<and> node_text (fst (addNode gid rx ry CAUSE (Some '''') x y s)) = ''Nova Causa''
   \<and> map node_text (nodes (snd (addNode gid rx ry UDE (Some '''') x y s)))
       = map node_text (nodes s) @ [''Novo EI'']
   \<and> map node_text (nodes (snd (addNode gid rx ry CAUSE (Some '''') x y s)))
       = map node_text (nodes s) @ [''Nova Causa'']"
  by (simp add: addNode_def placeholder_def Let_def)

text \<open>
  C7. After \<open>handleUpdateNodeDimensions nid w h\<close> every node with identifier \<open>nid\<close> has
  width \<open>max w 60\<close> and height \<open>max h 40\<close>, hence at least the minimums; every node with
  another identifier is unchanged, and so are the number of nodes and the edges.
\<close>

theorem updateNodeDimensions_clamps:
  "MIN_NODE_WIDTH = 60 \<and> MIN_NODE_HEIGHT = 40
   \<and> length (nodes (handleUpdateNodeDimensions nid w h s)) = length (nodes s)
   \<and> edges (handleUpdateNodeDimensions nid w h s) = edges s
   \<and> (\<forall>i < length (nodes s).
        (node_id (nodes s ! i) = nid \<longrightarrow>
           node_width (nodes (handleUpdateNodeDimensions nid w h s) ! i) = max w MIN_NODE_WIDTH
           \<and> node_height (nodes (handleUpdateNodeDimensions nid w h s) ! i) = max h MIN_NODE_HEIGHT
           \<and> MIN_NODE_WIDTH \<le> node_width (nodes (handleUpdateNodeDimensions nid w h s) ! i)
           \<and> MIN_NODE_HEIGHT \<le> node_height (nodes (handleUpdateNodeDimensions nid w h s) ! i))
        \<and> (node_id (nodes s ! i) \<noteq> nid \<longrightarrow>
             nodes (handleUpdateNodeDimensions nid w h s) ! i = nodes s ! i))"
  by (simp add: handleUpdateNodeDimensions_def MIN_NODE_WIDTH_def MIN_NODE_HEIGHT_def max.commute)

theorem updateNodeDimensions_clamps_witness:
  "node_id (nodes twoNodes ! 0) = ''a''
   \<and> node_width (nodes (handleUpdateNodeDimensions ''a'' 10 100 twoNodes) ! 0) = 60
   \<and> node_height (nodes (handleUpdateNodeDimensions ''a'' 10 100 twoNodes) ! 0) = 100
   \<and> node_id (nodes twoNodes ! 1) \<noteq> ''a''
   \<and> nodes (handleUpdateNodeDimensions ''a'' 10 100 twoNodes) ! 1 = nodeB"
  using updateNodeDimensions_clamps [of "''a''" 10 100 twoNodes]
  by (simp add: twoNodes_def nodeA_def nodeB_def MIN_NODE_WIDTH_def MIN_NODE_HEIGHT_def)

text \<open>
  C4. \<open>deleteNode nid\<close> keeps exactly the nodes whose identifier is not \<open>nid\<close> and exactly
  the edges with neither endpoint \<open>nid\<close>, in their order; so \<open>nid\<close> is no longer a node
  identifier, no remaining edge references it, and every edge that referenced it is
  gone. The selection is cleared when it was \<open>nid\<close> and kept otherwise.
\<close>

theorem deleteNode_cascades:
  "nodes (deleteNode nid s) = filter (\<lambda>n. node_id n \<noteq> nid) (nodes s)
   \<and> edges (deleteNode nid s)
       = filter (\<lambda>e. edge_sourceId e \<noteq> nid \<and> edge_targetId e \<noteq> nid) (edges s)
   \<and> nid \<notin> nodeIds (deleteNode nid s)
   \<and> (\<forall>e \<in> set (edges (deleteNode nid s)). edge_sourceId e \<noteq> nid \<and> edge_targetId e \<noteq> nid)
   \<and> (\<forall>e \<in> set (edges s). edge_sourceId e = nid \<or> edge_targetId e = nid
         \<longrightarrow> e \<notin> set (edges (deleteNode nid s)))
   \<and> (\<forall>n \<in> set (nodes s). node_id n \<noteq> nid \<longrightarrow> n \<in> set (nodes (deleteNode nid s)))
   \<and> (\<forall>e \<in> set (edges s). edge_sourceId e \<noteq> nid \<and> edge_targetId e \<noteq> nid
         \<longrightarrow> e \<in> set (edges (deleteNode nid s)))
   \<and> (selectedNodeId s = Some nid \<longrightarrow> selectedNodeId (deleteNode nid s) = None)
   \<and> (selectedNodeId s \<noteq> Some nid \<longrightarrow> selectedNodeId (deleteNode nid s) = selectedNodeId s)"
  by (auto simp: deleteNode_def nodeIds_def)

theorem deleteNode_cascades_witness:
  "selectedNodeId linked = Some ''a''
   \<and> nodes (deleteNode ''a'' linked) = [nodeB]
   \<and> edges (deleteNode ''a'' linked) = []
   \<and> selectedNodeId (deleteNode ''a'' linked) = None
   \<and> selectedNodeId linked \<noteq> Some ''b''
   \<and> selectedNodeId (deleteNode ''b'' linked) = Some ''a''"
  using deleteNode_cascades [of "''a''" linked] deleteNode_cascades [of "''b''" linked]
  by (simp add: linked_def twoNodes_def nodeA_def nodeB_def)



text \<open>
  C2, as stated, fails: \<open>addEdge\<close> does not look at the node list, so on the empty store
  \<open>addEdge a b\<close> stores an edge whose endpoints are not nodes. The editor reaches such a
  call: \<open>deleteNode\<close> keeps the pending edge, so after "start connect" on \<open>a\<close> and the
  deletion of \<open>a\<close>, a press on the target port of \<open>b\<close> stores an edge from the deleted \<open>a\<close>.
\<close>

theorem addEdge_dangling_counterexample:
  "endpointsExist initialEditor
   \<and> nodes (addEdge ''e1'' ''a'' ''b'' initialEditor) = []
   \<and> edges (addEdge ''e1'' ''a'' ''b'' initialEditor)
       = [\<lparr> edge_id = ''e1'', edge_sourceId = ''a'', edge_targetId = ''b'' \<rparr>]
   \<and> \<not> endpointsExist (addEdge ''e1'' ''a'' ''b'' initialEditor)
   \<and> endpointsExist (deleteNode ''a'' connecting)
   \<and> nodes (deleteNode ''a'' connecting) = [nodeB]
   \<and> edges (handlePortMouseDown \<lparr> clientX = 400, clientY = 300 \<rparr> paneAtOrigin ''e1'' ''b'' target
               (deleteNode ''a'' connecting))
       = [\<lparr> edge_id = ''e1'', edge_sourceId = ''a'', edge_targetId = ''b'' \<rparr>]
   \<and> \<not> endpointsExist
         (handlePortMouseDown \<lparr> clientX = 400, clientY = 300 \<rparr> paneAtOrigin ''e1'' ''b'' target
            (deleteNode ''a'' connecting))"
  by (simp add: addEdge_def endpointsExist_def nodeIds_def initialEditor_def connecting_def
        handleStartConnectFromNode_def twoNodes_def nodeA_def nodeB_def deleteNode_def
        handlePortMouseDown_def)

text \<open>
  C2, amended. \<open>addNode\<close>, the update operations, \<open>deleteNode\<close> and \<open>deleteEdge\<close> preserve
  the invariant that both endpoints of every edge are identifiers of existing nodes;
  \<open>addEdge a b\<close> preserves it when \<open>a\<close> and \<open>b\<close> are identifiers of existing nodes, and,
  when it appends an edge, only then.
\<close>

theorem endpointsExist_preserved:
  assumes "endpointsExist s"
  shows "endpointsExist (snd (addNode gid rx ry ty txt x y s))
   \<and> endpointsExist (updateNodeText nid t s)
   \<and> endpointsExist (updateNodePosition nid x' y' s)
   \<and> endpointsExist (handleUpdateNodeDimensions nid w h s)
   \<and> endpointsExist (handleSetDefaultNodeSize w h s)
   \<and> endpointsExist (deleteNode nid s)
   \<and> endpointsExist (deleteEdge eid s)
   \<and> (a \<in> nodeIds s \<and> b \<in> nodeIds s \<longrightarrow> endpointsExist (addEdge gid a b s))
   \<and> (addEdge gid a b s \<noteq> s \<and> endpointsExist (addEdge gid a b s)
        \<longrightarrow> a \<in> nodeIds s \<and> b \<in> nodeIds s)"
proof -
  have ids_text: "nodeIds (updateNodeText nid t s) = nodeIds s"
    by (auto simp: nodeIds_def updateNodeText_def image_iff)
  have ids_pos: "nodeIds (updateNodePosition nid x' y' s) = nodeIds s"
    by (auto simp: nodeIds_def updateNodePosition_def image_iff)
  have ids_dim: "nodeIds (handleUpdateNodeDimensions nid w h s) = nodeIds s"
    by (auto simp: nodeIds_def handleUpdateNodeDimensions_def image_iff)
  have c1: "endpointsExist (snd (addNode gid rx ry ty txt x y s))"
    using assms by (auto simp: endpointsExist_def nodeIds_def addNode_def Let_def list_all_iff)
  have c2: "endpointsExist (updateNodeText nid t s)"
    using assms ids_text by (simp add: endpointsExist_def updateNodeText_def)
  have c3: "endpointsExist (updateNodePosition nid x' y' s)"
    using assms ids_pos by (simp add: endpointsExist_def updateNodePosition_def)
  have c4: "endpointsExist (handleUpdateNodeDimensions nid w h s)"
    using assms ids_dim by (simp add: endpointsExist_def handleUpdateNodeDimensions_def)
  have c5: "endpointsExist (handleSetDefaultNodeSize w h s)"
    using assms by (simp add: endpointsExist_def nodeIds_def handleSetDefaultNodeSize_def)
  have c6: "endpointsExist (deleteNode nid s)"
    using assms by (auto simp: endpointsExist_def nodeIds_def deleteNode_def list_all_iff)
  have c7: "endpointsExist (deleteEdge eid s)"
    using assms by (auto simp: endpointsExist_def nodeIds_def deleteEdge_def list_all_iff)
  have c8: "a \<in> nodeIds s \<and> b \<in> nodeIds s \<longrightarrow> endpointsExist (addEdge gid a b s)"
    using assms by (auto simp: endpointsExist_def nodeIds_def addEdge_def list_all_iff)
  have c9: "addEdge gid a b s \<noteq> s \<and> endpointsExist (addEdge gid a b s)
              \<longrightarrow> a \<in> nodeIds s \<and> b \<in> nodeIds s"
    by (auto simp: endpointsExist_def nodeIds_def addEdge_def list_all_iff split: if_splits)
  show ?thesis using c1 c2 c3 c4 c5 c6 c7 c8 c9 by blast
qed

theorem endpointsExist_preserved_witness:
  "endpointsExist linked
   \<and> ''a'' \<in> nodeIds linked \<and> ''b'' \<in> nodeIds linked
   \<and> endpointsExist (addEdge ''e2'' ''a'' ''b'' linked)
   \<and> addEdge ''e2'' ''a'' ''b'' linked \<noteq> linked
   \<and> endpointsExist (deleteNode ''a'' linked)
   \<and> edges (deleteNode ''a'' linked) = []"
proof -
  have inv: "endpointsExist linked"
    by (simp add: endpointsExist_def nodeIds_def linked_def twoNodes_def nodeA_def nodeB_def)
  have ne: "edges (addEdge ''e2'' ''a'' ''b'' linked) \<noteq> edges linked"
    by (simp add: addEdge_def linked_def twoNodes_def)
  then have "addEdge ''e2'' ''a'' ''b'' linked \<noteq> linked" by auto
  then show ?thesis
    using inv endpointsExist_preserved [OF inv, where nid = "''a''" and gid = "''e2''" and a = "''a''" and b = "''b''"]
    by (simp add: nodeIds_def deleteNode_def linked_def twoNodes_def nodeA_def nodeB_def)
qed

section \<open>Geometry: results\<close>

text \<open>Scaling a nonzero delta by \<open>\<bar>half / delta\<bar>\<close> reaches the half extent, with the
  sign of the delta, so the clamped coordinate is one of the two edges.\<close>

lemma mul_abs_div_pos: "d \<noteq> 0 \<Longrightarrow> 0 < k \<Longrightarrow> (d::real) * \<bar>k / d\<bar> = sgn d * k"
  by (cases "d > 0") (auto simp: abs_divide sgn_real_def field_simps)

lemma clamp_on_edge:
  fixes lo wd d :: real
  assumes "0 < wd" "d \<noteq> 0"
  shows "max lo (min (lo + wd / 2 + d * \<bar>(wd / 2) / d\<bar>) (lo + wd)) = lo
       \<or> max lo (min (lo + wd / 2 + d * \<bar>(wd / 2) / d\<bar>) (lo + wd)) = lo + wd"
proof -
  have "d * \<bar>(wd / 2) / d\<bar> = sgn d * (wd / 2)"
    using assms by (intro mul_abs_div_pos) auto
  then show ?thesis using assms by (cases "d > 0") (auto simp: sgn_real_def)
qed

text \<open>When the horizontal boundary factor is the minimum, the x coordinate of the result
  is the clamped point on the left or right edge; likewise for the vertical one.\<close>

lemma calc_horizontal_first:
  assumes w: "0 < node_width node"
    and dx: "point_x tp - (node_x node + node_width node / 2) \<noteq> 0"
    and le: "point_y tp - (node_y node + node_height node / 2) \<noteq> 0 \<longrightarrow>
             \<bar>(node_width node / 2) / (point_x tp - (node_x node + node_width node / 2))\<bar>
             \<le> \<bar>(node_height node / 2) / (point_y tp - (node_y node + node_height node / 2))\<bar>"
  shows "point_x (calculateIntersectionPointWithNodeBoundary node tp) =
      max (node_x node) (min (node_x node + node_width node / 2
            + (point_x tp - (node_x node + node_width node / 2))
              * \<bar>(node_width node / 2) / (point_x tp - (node_x node + node_width node / 2))\<bar>)
          (node_x node + node_width node))"
proof -
  have nz: "\<bar>(node_width node / 2) / (point_x tp - (node_x node + node_width node / 2))\<bar> \<noteq> 0"
    using w dx by simp
  show ?thesis
  proof (cases "point_y tp - (node_y node + node_height node / 2) = 0")
    case True
    with dx nz show ?thesis
      unfolding calculateIntersectionPointWithNodeBoundary_def Let_def mathMin_def
      by (simp only: if_True if_False option.case simp_thms Point.select_convs not_False_eq_True)
  next
    case False
    with le have m: "min \<bar>(node_width node / 2) / (point_x tp - (node_x node + node_width node / 2))\<bar>
        \<bar>(node_height node / 2) / (point_y tp - (node_y node + node_height node / 2))\<bar>
      = \<bar>(node_width node / 2) / (point_x tp - (node_x node + node_width node / 2))\<bar>"
      by (simp only: min_def simp_thms if_True)
    from False dx nz show ?thesis
      unfolding calculateIntersectionPointWithNodeBoundary_def Let_def mathMin_def
      by (simp only: if_True if_False option.case simp_thms Point.select_convs not_False_eq_True m)
  qed
qed

lemma calc_vertical_first:
  assumes h: "0 < node_height node"
    and dy: "point_y tp - (node_y node + node_height node / 2) \<noteq> 0"
    and le: "point_x tp - (node_x node + node_width node / 2) \<noteq> 0 \<longrightarrow>
             \<bar>(node_height node / 2) / (point_y tp - (node_y node + node_height node / 2))\<bar>
             \<le> \<bar>(node_width node / 2) / (point_x tp - (node_x node + node_width node / 2))\<bar>"
  shows "point_y (calculateIntersectionPointWithNodeBoundary node tp) =
      max (node_y node) (min (node_y node + node_height node / 2
            + (point_y tp - (node_y node + node_height node / 2))
              * \<bar>(node_height node / 2) / (point_y tp - (node_y node + node_height node / 2))\<bar>)
          (node_y node + node_height node))"
proof -
  have nz: "\<bar>(node_height node / 2) / (point_y tp - (node_y node + node_height node / 2))\<bar> \<noteq> 0"
    using h dy by simp
  show ?thesis
  proof (cases "point_x tp - (node_x node + node_width node / 2) = 0")
    case True
    with dy nz show ?thesis
      unfolding calculateIntersectionPointWithNodeBoundary_def Let_def mathMin_def
      by (simp only: if_True if_False option.case simp_thms Point.select_convs not_False_eq_True)
  next
    case False
    with le have m: "min \<bar>(node_width node / 2) / (point_x tp - (node_x node + node_width node / 2))\<bar>
        \<bar>(node_height node / 2) / (point_y tp - (node_y node + node_height node / 2))\<bar>
      = \<bar>(node_height node / 2) / (point_y tp - (node_y node + node_height node / 2))\<bar>"
      by (simp only: min_def simp_thms) auto
    from False dy nz show ?thesis
      unfolding calculateIntersectionPointWithNodeBoundary_def Let_def mathMin_def
      by (simp only: if_True if_False option.case simp_thms Point.select_convs not_False_eq_True m)
  qed
qed

lemma calc_in_box:
  assumes w: "0 < node_width node" and h: "0 < node_height node"
  shows "node_x node \<le> point_x (calculateIntersectionPointWithNodeBoundary node tp)
   \<and> point_x (calculateIntersectionPointWithNodeBoundary node tp) \<le> node_x node + node_width node
   \<and> node_y node \<le> point_y (calculateIntersectionPointWithNodeBoundary node tp)
   \<and> point_y (calculateIntersectionPointWithNodeBoundary node tp) \<le> node_y node + node_height node"
  using w h
  by (simp add: calculateIntersectionPointWithNodeBoundary_def Let_def mathMin_def sgn_real_def
        split: option.split)

text \<open>
  C8. For a node of positive width and height and any target point, the point returned by
  \<open>calculateIntersectionPointWithNodeBoundary\<close> has its x between \<open>node.x\<close> and
  \<open>node.x + width\<close> and its y between \<open>node.y\<close> and \<open>node.y + height\<close>, and at least one of
  the two coordinates lies on an edge of the box. Over the reals this holds exactly.
\<close>

theorem intersection_on_border:
  assumes w: "0 < node_width node" and h: "0 < node_height node"
  shows "node_x node \<le> point_x (calculateIntersectionPointWithNodeBoundary node tp)
   \<and> point_x (calculateIntersectionPointWithNodeBoundary node tp) \<le> node_x node + node_width node
   \<and> node_y node \<le> point_y (calculateIntersectionPointWithNodeBoundary node tp)
   \<and> point_y (calculateIntersectionPointWithNodeBoundary node tp) \<le> node_y node + node_height node
   \<and> (point_x (calculateIntersectionPointWithNodeBoundary node tp) = node_x node
      \<or> point_x (calculateIntersectionPointWithNodeBoundary node tp) = node_x node + node_width node
      \<or> point_y (calculateIntersectionPointWithNodeBoundary node tp) = node_y node
      \<or> point_y (calculateIntersectionPointWithNodeBoundary node tp) = node_y node + node_height node)"
proof -
  let ?dx = "point_x tp - (node_x node + node_width node / 2)"
  let ?dy = "point_y tp - (node_y node + node_height node / 2)"
  let ?p = "calculateIntersectionPointWithNodeBoundary node tp"
  have edge: "point_x ?p = node_x node \<or> point_x ?p = node_x node + node_width node
      \<or> point_y ?p = node_y node \<or> point_y ?p = node_y node + node_height node"
  proof (cases "?dx = 0 \<and> ?dy = 0")
    case True
    then show ?thesis
      by (simp add: calculateIntersectionPointWithNodeBoundary_def Let_def)
  next
    case False
    then consider
        (horizontal) "?dx \<noteq> 0"
          "?dy \<noteq> 0 \<longrightarrow> \<bar>(node_width node / 2) / ?dx\<bar> \<le> \<bar>(node_height node / 2) / ?dy\<bar>"
      | (vertical) "?dy \<noteq> 0"
          "?dx \<noteq> 0 \<longrightarrow> \<bar>(node_height node / 2) / ?dy\<bar> \<le> \<bar>(node_width node / 2) / ?dx\<bar>"
      by linarith
    then show ?thesis
    proof cases
      case horizontal
      show ?thesis
        using calc_horizontal_first [OF w horizontal] clamp_on_edge [OF w horizontal(1), of "node_x node"]
        by presburger
    next
      case vertical
      show ?thesis
        using calc_vertical_first [OF h vertical] clamp_on_edge [OF h vertical(1), of "node_y node"]
        by presburger
    qed
  qed
  from calc_in_box [OF w h, of tp] edge show ?thesis by blast
qed

theorem intersection_on_border_witness:
  "0 < node_width nodeA \<and> 0 < node_height nodeA
   \<and> calculateIntersectionPointWithNodeBoundary nodeA (nodeCenter nodeB)
       = \<lparr> point_x = 135, point_y = 70 \<rparr>"
  using intersection_on_border [of nodeA "nodeCenter nodeB"]
  by (simp add: calculateIntersectionPointWithNodeBoundary_def Let_def mathMin_def nodeA_def nodeB_def nodeCenter_def)

text \<open>
  C9. When the target point is the node's own centre, the function returns the
  bottom-centre point of the box, \<open>(node.x + width / 2, node.y + height)\<close>; being a
  function of its two arguments, it returns it on every call.
\<close>

theorem intersection_center_fallback:
  "calculateIntersectionPointWithNodeBoundary node (nodeCenter node)
     = \<lparr> point_x = node_x node + node_width node / 2, point_y = node_y node + node_height node \<rparr>"
  by (simp add: calculateIntersectionPointWithNodeBoundary_def nodeCenter_def Let_def)

section \<open>Interaction: results\<close>




lemma connecting_eq:
  "connecting = twoNodes\<lparr> pendingEdge := Some
       \<lparr> pending_sourceId = ''a'', pending_sourceX = 100, pending_sourceY = 70,
         pending_mouseX = 100, pending_mouseY = 70 \<rparr>,
     selectedNodeId := Some ''a'' \<rparr>"
  by (simp add: connecting_def handleStartConnectFromNode_def twoNodes_def nodeA_def initialEditor_def)




text \<open>
  C1, as stated, fails: after "start connect" on \<open>a\<close> no node is hot, and a press on the
  target port of \<open>b\<close> commits the edge from \<open>a\<close> to \<open>b\<close>.
\<close>

theorem press_not_hot_commits_counterexample:
  "map_option pending_sourceId (pendingEdge connecting) = Some ''a''
   \<and> potentialTargetNodeId connecting = None
   \<and> edges connecting = []
   \<and> edges (handlePortMouseDown \<lparr> clientX = 400, clientY = 300 \<rparr> paneAtOrigin ''e1'' ''b'' target
               connecting)
       = [\<lparr> edge_id = ''e1'', edge_sourceId = ''a'', edge_targetId = ''b'' \<rparr>]"
  by (simp add: connecting_eq twoNodes_def initialEditor_def handlePortMouseDown_def addEdge_def)

text \<open>
  C1, amended. While a pending edge is active, a press on the target port of a node
  other than its source calls \<open>addEdge\<close> from the source to that node whether or not the
  node is the hot target, and clears the pending edge and the hot target. It is the
  release on a target port that calls \<open>addEdge\<close> only when the node is the hot target,
  and clears the pending edge and the hot target in both cases.
\<close>

theorem press_commits_release_needs_hot:
  assumes "pendingEdge s = Some pe" and "pending_sourceId pe \<noteq> nodeId"
  shows "handlePortMouseDown e paneRect gid nodeId target s
           = (addEdge gid (pending_sourceId pe) nodeId s)
               \<lparr> pendingEdge := None, potentialTargetNodeId := None \<rparr>
   \<and> (potentialTargetNodeId s = Some nodeId \<longrightarrow>
        handlePortMouseUp gid nodeId target s
          = (addEdge gid (pending_sourceId pe) nodeId s)
              \<lparr> pendingEdge := None, potentialTargetNodeId := None \<rparr>)
   \<and> (potentialTargetNodeId s \<noteq> Some nodeId \<longrightarrow>
        handlePortMouseUp gid nodeId target s
          = s\<lparr> pendingEdge := None, potentialTargetNodeId := None \<rparr>)"
  using assms by (simp add: handlePortMouseDown_def handlePortMouseUp_def)

theorem press_commits_release_needs_hot_witness:
  "pendingEdge connecting \<noteq> None
   \<and> potentialTargetNodeId connecting \<noteq> Some ''b''
   \<and> edges (handlePortMouseDown \<lparr> clientX = 400, clientY = 300 \<rparr> paneAtOrigin ''e1'' ''b'' target
               connecting)
       = [\<lparr> edge_id = ''e1'', edge_sourceId = ''a'', edge_targetId = ''b'' \<rparr>]
   \<and> edges (handlePortMouseUp ''e1'' ''b'' target connecting) = []
   \<and> edges (handlePortMouseUp ''e1'' ''b'' target (connecting\<lparr> potentialTargetNodeId := Some ''b'' \<rparr>))
       = [\<lparr> edge_id = ''e1'', edge_sourceId = ''a'', edge_targetId = ''b'' \<rparr>]"
proof -
  let ?pe = "\<lparr> pending_sourceId = ''a'', pending_sourceX = 100, pending_sourceY = 70,
         pending_mouseX = 100, pending_mouseY = 70 \<rparr>"
  have pe: "pendingEdge connecting = Some ?pe" by (simp add: connecting_eq)
  have pe': "pendingEdge (connecting\<lparr> potentialTargetNodeId := Some ''b'' \<rparr>) = Some ?pe"
    by (simp add: connecting_eq)
  have ne: "pending_sourceId ?pe \<noteq> ''b''" by simp
  show ?thesis
    using press_commits_release_needs_hot [OF pe ne, of "\<lparr> clientX = 400, clientY = 300 \<rparr>" paneAtOrigin "''e1''"]
          press_commits_release_needs_hot [OF pe' ne, of "\<lparr> clientX = 400, clientY = 300 \<rparr>" paneAtOrigin "''e1''"]
    by (simp add: connecting_eq twoNodes_def initialEditor_def addEdge_def)
qed




end
